theory Spec2Isabelle
  imports Complex_Main
begin

section \<open>Python values, rows and exceptions\<close>

text \<open>
  The stores keep activities as Python dicts (the rows of a pandas DataFrame or of the JSON
  document). A cell holds a dynamically typed value. Timestamps (\<^verbatim>\<open>datetime\<close>,
  \<^verbatim>\<open>pd.Timestamp\<close>, and the readings of \<^verbatim>\<open>time.time()\<close>) are integers counting
  microseconds; a finite float is a rational number.
\<close>

datatype pyval = PNone | PInt int | PFloat rat | PStr string | PDatetime int

type_synonym pydict = "string \<Rightarrow> pyval option"

type_synonym dataframe = "pydict list"

datatype exn = KeyError | ValueError | TypeError | OSError | AttributeError

text \<open>\<^verbatim>\<open>timedelta(days=n)\<close> in microseconds.\<close>

definition timedelta_days :: "int \<Rightarrow> int" where
  "timedelta_days n = n * 86400000000"

subsection \<open>constants.py\<close>


text \<open>\<^verbatim>\<open>CACHE_CONFIG['max_cache_age']\<close>: 300 seconds.\<close>

definition max_cache_age :: int where "max_cache_age = 300000000"

section \<open>The JSON file store\<close>

text \<open>
  The activities file either parses as a JSON array of objects or it does not
  (\<open>Corrupt\<close>: truncated or otherwise malformed text). The JSON text of a row is
  represented by the row it parses to; the text pandas writes for a timestamp
  (\<^verbatim>\<open>astype(str)\<close>) is represented by that timestamp.
\<close>

datatype json_file = Json "pydict list" | Corrupt

record store =
  activities_file :: "json_file option"
  activities_mtime :: int
  activities_tmp :: "json_file option"
  activities_cache :: "dataframe option"
  activities_cache_timestamp :: int

text \<open>
  What an operation reads from outside the store: the clock, the value \<^verbatim>\<open>uuid.uuid4()\<close>
  returns, what the disk does to a write, and \<^verbatim>\<open>datetime.fromisoformat\<close>. One
  operation reads the clock once.
\<close>

datatype disk_outcome = DiskOk | OpenFails | WriteFails | ReplaceFails

record env =
  clock :: int
  uuid4 :: string
  disk :: disk_outcome
  fromisoformat :: "string \<Rightarrow> int option"

subsection \<open>Reading a frame: \<^verbatim>\<open>pd.DataFrame\<close>, \<^verbatim>\<open>pd.to_datetime\<close>, \<^verbatim>\<open>sort_values\<close>\<close>

text \<open>A column exists when some row has the key.\<close>

definition has_column :: "string \<Rightarrow> dataframe \<Rightarrow> bool" where
  "has_column c df = list_ex (\<lambda>r. r c \<noteq> None) df"

text \<open>
  \<^verbatim>\<open>pd.to_datetime\<close> on the date cell of one row: a timestamp and a null stay, a string
  is parsed, anything else is taken to be rejected.
\<close>

definition to_datetime :: "env \<Rightarrow> pydict \<Rightarrow> exn + pydict" where
  "to_datetime e r =
     (case r ''date'' of
        None \<Rightarrow> Inr r
      | Some PNone \<Rightarrow> Inr r
      | Some (PDatetime t) \<Rightarrow> Inr r
      | Some (PStr x) \<Rightarrow>
          (case fromisoformat e x of
             None \<Rightarrow> Inl ValueError
           | Some t \<Rightarrow> Inr (r(''date'' \<mapsto> PDatetime t)))
      | Some (PInt n) \<Rightarrow> Inl ValueError
      | Some (PFloat q) \<Rightarrow> Inl ValueError)"

fun to_datetime_rows :: "env \<Rightarrow> dataframe \<Rightarrow> exn + dataframe" where
  "to_datetime_rows e [] = Inr []"
| "to_datetime_rows e (r # rs) =
     (case to_datetime e r of
        Inl x \<Rightarrow> Inl x
      | Inr r' \<Rightarrow>
          (case to_datetime_rows e rs of
             Inl x \<Rightarrow> Inl x
           | Inr rs' \<Rightarrow> Inr (r' # rs')))"

definition date_of :: "pydict \<Rightarrow> int option" where
  "date_of r = (case r ''date'' of Some (PDatetime t) \<Rightarrow> Some t | _ \<Rightarrow> None)"

text \<open>
  \<^verbatim>\<open>df.sort_values('date', ascending=False)\<close>: newest first, rows without a date last.
\<close>

definition sort_values_date_desc :: "dataframe \<Rightarrow> dataframe" where
  "sort_values_date_desc df =
     sort_key (\<lambda>r. - the (date_of r)) (filter (\<lambda>r. date_of r \<noteq> None) df)
     @ filter (\<lambda>r. date_of r = None) df"

text \<open>
  The lines both \<^verbatim>\<open>load_activities\<close> share for a non-empty document:
  \<^verbatim>\<open>
  df = pd.DataFrame(activities)
  df['date'] = pd.to_datetime(df['date'])
  if 'adaptation' not in df.columns:
      df['adaptation'] = None
  df = df.sort_values('date', ascending=False)
  \<close>
\<close>

definition frame_of_json :: "env \<Rightarrow> pydict list \<Rightarrow> exn + dataframe" where
  "frame_of_json e acts =
     (if \<not> has_column ''date'' acts then Inl KeyError
      else case to_datetime_rows e acts of
        Inl x \<Rightarrow> Inl x
      | Inr df \<Rightarrow>
          Inr (sort_values_date_desc
                 (if has_column ''adaptation'' df then df
                  else map (\<lambda>r. r(''adaptation'' \<mapsto> PNone)) df)))"

subsection \<open>data\_manager.py: class DataManager\<close>

definition cache_frame :: "env \<Rightarrow> dataframe \<Rightarrow> store \<Rightarrow> store" where
  "cache_frame e df s = s\<lparr>activities_cache := Some df, activities_cache_timestamp := clock e\<rparr>"

text \<open>
  \<^verbatim>\<open>DataManager.load_activities\<close>, the part after the cache test. Every exception is
  caught and answered with an empty frame.
\<close>

definition DataManager_load_fresh :: "env \<Rightarrow> json_file \<Rightarrow> store \<Rightarrow> dataframe \<times> store" where
  "DataManager_load_fresh e f s =
     (case f of
        Corrupt \<Rightarrow> ([], s)
      | Json acts \<Rightarrow>
          if acts \<noteq> [] then
            (case frame_of_json e acts of
               Inl x \<Rightarrow> ([], s)
             | Inr df \<Rightarrow> (df, cache_frame e df s))
          else ([], cache_frame e [] s))"

definition DataManager_load_activities :: "env \<Rightarrow> store \<Rightarrow> dataframe \<times> store" where
  "DataManager_load_activities e s =
     (case activities_file s of
        None \<Rightarrow> ([], s)
      | Some f \<Rightarrow>
          (case activities_cache s of
             Some c \<Rightarrow>
               if activities_mtime s \<le> activities_cache_timestamp s then (c, s)
               else DataManager_load_fresh e f s
           | None \<Rightarrow> DataManager_load_fresh e f s))"



definition concat_row :: "dataframe \<Rightarrow> pydict \<Rightarrow> dataframe" where
  "concat_row df new_row = (if df = [] then [new_row] else df @ [new_row])"







text \<open>The period's lookback window in days; \<open>None\<close> where the source does not filter.\<close>

definition DataManager_start_date :: "env \<Rightarrow> string \<Rightarrow> int option" where
  "DataManager_start_date e period =
     (if period = ''Week'' then Some (clock e - timedelta_days 7)
      else if period = ''Month'' then Some (clock e - timedelta_days 30)
      else if period = ''Season'' then Some (clock e - timedelta_days 90)
      else None)"

text \<open>\<^verbatim>\<open>df[df['date'] >= start_date]\<close>: a row without a timestamp compares false.\<close>

definition on_or_after :: "int \<Rightarrow> pydict \<Rightarrow> bool" where
  "on_or_after start r = (case date_of r of None \<Rightarrow> False | Some t \<Rightarrow> start \<le> t)"

definition DataManager_get_activities_for_period ::
  "env \<Rightarrow> string \<Rightarrow> store \<Rightarrow> dataframe \<times> store" where
  "DataManager_get_activities_for_period e period s =
     (let (df, s1) = DataManager_load_activities e s in
      if df = [] then (df, s1)
      else if period = ''All time'' then (df, s1)
      else case DataManager_start_date e period of
        None \<Rightarrow> (df, s1)
      | Some start_date \<Rightarrow>
          if has_column ''date'' df \<and> df \<noteq> [] then (filter (on_or_after start_date) df, s1)
          else (df, s1))"

subsection \<open>optimized\_data\_manager.py: class OptimizedDataManager\<close>

definition create_empty_activities_df :: dataframe where
  "create_empty_activities_df = []"

definition is_cache_valid :: "env \<Rightarrow> store \<Rightarrow> bool" where
  "is_cache_valid e s =
     (case activities_file s of
        None \<Rightarrow> False
      | Some f \<Rightarrow>
          activities_mtime s \<le> activities_cache_timestamp s
          \<and> clock e - activities_cache_timestamp s < max_cache_age)"

text \<open>
  \<^verbatim>\<open>OptimizedDataManager.load_activities\<close>, the part after the cache test. The handler
  catches \<^verbatim>\<open>json.JSONDecodeError\<close>, \<^verbatim>\<open>OSError\<close> and \<^verbatim>\<open>KeyError\<close>; a
  \<^verbatim>\<open>ValueError\<close> of \<^verbatim>\<open>pd.to_datetime\<close> leaves the method.
\<close>

definition OptimizedDataManager_load_fresh :: "env \<Rightarrow> store \<Rightarrow> (exn + dataframe) \<times> store" where
  "OptimizedDataManager_load_fresh e s =
     (case activities_file s of
        None \<Rightarrow> (Inr create_empty_activities_df, s)
      | Some Corrupt \<Rightarrow> (Inr create_empty_activities_df, s)
      | Some (Json acts) \<Rightarrow>
          (case (if acts = [] then Inr create_empty_activities_df else frame_of_json e acts) of
             Inl x \<Rightarrow> if x = KeyError then (Inr create_empty_activities_df, s) else (Inl x, s)
           | Inr df \<Rightarrow> (Inr df, cache_frame e df s)))"

definition OptimizedDataManager_load_activities ::
  "env \<Rightarrow> store \<Rightarrow> (exn + dataframe) \<times> store" where
  "OptimizedDataManager_load_activities e s =
     (case activities_cache s of
        Some c \<Rightarrow> if is_cache_valid e s then (Inr c, s) else OptimizedDataManager_load_fresh e s
      | None \<Rightarrow> OptimizedDataManager_load_fresh e s)"





fun len :: "pyval \<Rightarrow> exn + nat" where
  "len (PStr x) = Inr (length x)"
| "len v = Inl TypeError"





definition period_days :: "string \<Rightarrow> int option" where
  "period_days = [''Week'' \<mapsto> 7, ''Month'' \<mapsto> 30, ''Season'' \<mapsto> 90]"

definition OptimizedDataManager_get_activities_for_period ::
  "env \<Rightarrow> string \<Rightarrow> store \<Rightarrow> (exn + dataframe) \<times> store" where
  "OptimizedDataManager_get_activities_for_period e period s =
     (case OptimizedDataManager_load_activities e s of
        (Inl x, s1) \<Rightarrow> (Inl x, s1)
      | (Inr df, s1) \<Rightarrow>
          if df = [] \<or> period = ''All time'' then (Inr df, s1)
          else
            (case period_days period of
               None \<Rightarrow> (Inr df, s1)
             | Some days \<Rightarrow>
                 if days = 0 then (Inr df, s1)
                 else if has_column ''date'' df \<and> df \<noteq> [] then
                   (Inr (filter (on_or_after (clock e - timedelta_days days)) df), s1)
                 else (Inr df, s1)))"

section \<open>The relational store\<close>

text \<open>
  The tables of \<^verbatim>\<open>database.py\<close> and \<^verbatim>\<open>optimized_database.py\<close> (the two files declare
  the same schema) as lists of rows in table order; \<^verbatim>\<open>.first()\<close> is the first matching
  row. A column holds the Python value assigned to it. The \<^verbatim>\<open>friends\<close> relationship of a
  user is read as the users joined through the \<^verbatim>\<open>friendships\<close> rows that carry the user's
  id in \<^verbatim>\<open>user_id\<close>, and \<^verbatim>\<open>user.friends.append(friend)\<close> as the insertion of the row
  \<^verbatim>\<open>(user.id, friend.id)\<close>; the pair of columns is the table's primary key.
\<close>

record user =
  user_id :: int
  username :: string
  email :: string
  password_hash :: string
  created_at :: int
  weight_goal :: "rat option"
  preferred_language :: string
  dark_mode :: bool
  remember_token :: "string option"

record activity =
  activity_id :: int
  activity_user_id :: int
  act_type :: pyval
  act_duration :: pyval
  act_intensity :: pyval
  act_date :: pyval
  act_description :: pyval
  act_adaptation :: pyval

record weight_entry =
  entry_id :: int
  entry_user_id :: int
  entry_weight :: pyval
  entry_date :: pyval

record database =
  users :: "user list"
  activities :: "activity list"
  weight_entries :: "weight_entry list"
  friendships :: "(int \<times> int) list"
  next_user_id :: int

text \<open>
  What an operation reads from outside the tables: the clock; whether the database raises
  during the operation (a lost connection, a rejected statement) and the text of that
  exception; which row the database returns first for a query without \<^verbatim>\<open>ORDER BY\<close>;
  and bcrypt: the salt \<^verbatim>\<open>gensalt()\<close> returns, the digest, and the text of the exception
  it raises.
\<close>

record db_env =
  db_clock :: int
  db_raises :: bool
  error_text :: string
  first_row :: "user list \<Rightarrow> nat"
  gensalt :: string
  bcrypt_digest :: "string \<Rightarrow> string \<Rightarrow> string"
  hashpw_error :: string

subsection \<open>Users\<close>

text \<open>
  \<^verbatim>\<open>Query.first()\<close> on rows that were not ordered: one of the rows, chosen by the
  database.
\<close>

definition query_first :: "db_env \<Rightarrow> user list \<Rightarrow> user option" where
  "query_first e rows =
     (if rows = [] then None else Some (rows ! (first_row e rows mod length rows)))"








subsection \<open>Friends\<close>






subsection \<open>Activities\<close>

text \<open>
  The cutoff of \<^verbatim>\<open>get_user_activities\<close>, the same chain of comparisons in both files;
  \<open>None\<close> where the query is not filtered by date.
\<close>

definition cutoff_date :: "db_env \<Rightarrow> string \<Rightarrow> int option" where
  "cutoff_date e period =
     (if period \<noteq> ''All time'' then
        (if period = ''Week'' then Some (db_clock e - timedelta_days 7)
         else if period = ''Month'' then Some (db_clock e - timedelta_days 30)
         else if period = ''Season'' then Some (db_clock e - timedelta_days 90)
         else None)
      else None)"

definition act_date_of :: "activity \<Rightarrow> int option" where
  "act_date_of a = (case act_date a of PDatetime t \<Rightarrow> Some t | _ \<Rightarrow> None)"

text \<open>\<^verbatim>\<open>Activity.date >= cutoff\<close>\<close>

definition date_at_least :: "int \<Rightarrow> activity \<Rightarrow> bool" where
  "date_at_least c a = (case act_date_of a of None \<Rightarrow> False | Some t \<Rightarrow> c \<le> t)"

text \<open>\<^verbatim>\<open>order_by(Activity.date.desc())\<close>: newest first, rows without a timestamp last.\<close>

definition order_by_date_desc :: "activity list \<Rightarrow> activity list" where
  "order_by_date_desc xs =
     sort_key (\<lambda>a. - the (act_date_of a)) (filter (\<lambda>a. act_date_of a \<noteq> None) xs)
     @ filter (\<lambda>a. act_date_of a = None) xs"

definition user_activities_query :: "db_env \<Rightarrow> int \<Rightarrow> string \<Rightarrow> database \<Rightarrow> activity list" where
  "user_activities_query e uid period s =
     (let q = filter (\<lambda>a. activity_user_id a = uid) (activities s)
      in order_by_date_desc
           (case cutoff_date e period of
              None \<Rightarrow> q
            | Some c \<Rightarrow> filter (date_at_least c) q))"

text \<open>\<^verbatim>\<open>DatabaseManager.get_user_activities\<close> of \<^verbatim>\<open>database.py\<close>: \<^verbatim>\<open>.limit(1000)\<close>.\<close>

definition DatabaseManager_get_user_activities ::
  "db_env \<Rightarrow> int \<Rightarrow> string \<Rightarrow> database \<Rightarrow> activity list" where
  "DatabaseManager_get_user_activities e uid period s =
     (if db_raises e then [] else take 1000 (user_activities_query e uid period s))"

text \<open>
  \<^verbatim>\<open>OptimizedDatabaseManager.get_user_activities\<close>: \<^verbatim>\<open>.limit(limit or 1000)\<close>, where
  \<^verbatim>\<open>None\<close> and 0 are false. A negative limit is an error of the database.
\<close>

definition limit_or_1000 :: "int option \<Rightarrow> int" where
  "limit_or_1000 limit = (case limit of None \<Rightarrow> 1000 | Some n \<Rightarrow> if n = 0 then 1000 else n)"

definition OptimizedDatabaseManager_get_user_activities ::
  "db_env \<Rightarrow> int \<Rightarrow> string \<Rightarrow> int option \<Rightarrow> database \<Rightarrow> activity list" where
  "OptimizedDatabaseManager_get_user_activities e uid period limit s =
     (if db_raises e \<or> limit_or_1000 limit < 0 then []
      else take (nat (limit_or_1000 limit)) (user_activities_query e uid period s))"

text \<open>
  The six assignments of \<^verbatim>\<open>DatabaseManager.update_activity\<close>; a missing required key
  raises \<^verbatim>\<open>KeyError\<close>.
\<close>

definition set_activity_fields :: "pydict \<Rightarrow> activity \<Rightarrow> activity option" where
  "set_activity_fields activity_data a =
     (case (activity_data ''type'', activity_data ''duration'',
            activity_data ''intensity'', activity_data ''date'') of
        (Some ty, Some du, Some it, Some da) \<Rightarrow>
          Some (a\<lparr>act_type := ty, act_duration := du, act_intensity := it, act_date := da,
                   act_description := (case activity_data ''description'' of
                                         None \<Rightarrow> PStr [] | Some v \<Rightarrow> v),
                   act_adaptation := (case activity_data ''adaptation'' of
                                        None \<Rightarrow> PStr [] | Some v \<Rightarrow> v)\<rparr>)
      | _ \<Rightarrow> None)"

text \<open>
  \<^verbatim>\<open>DatabaseManager.update_activity\<close> and \<^verbatim>\<open>delete_activity\<close> of \<^verbatim>\<open>database.py\<close>:
  the row is looked up by id and owner, and written or deleted by its primary key.
\<close>

definition DatabaseManager_update_activity ::
  "db_env \<Rightarrow> int \<Rightarrow> int \<Rightarrow> pydict \<Rightarrow> database \<Rightarrow> bool \<times> database" where
  "DatabaseManager_update_activity e uid aid activity_data s =
     (if db_raises e then (False, s)
      else case find (\<lambda>a. activity_id a = aid \<and> activity_user_id a = uid) (activities s) of
        None \<Rightarrow> (False, s)
      | Some a \<Rightarrow>
          (case set_activity_fields activity_data a of
             None \<Rightarrow> (False, s)
           | Some a' \<Rightarrow>
               (True, s\<lparr>activities :=
                          map (\<lambda>b. if activity_id b = activity_id a then a' else b)
                            (activities s)\<rparr>)))"

definition DatabaseManager_delete_activity ::
  "db_env \<Rightarrow> int \<Rightarrow> int \<Rightarrow> database \<Rightarrow> bool \<times> database" where
  "DatabaseManager_delete_activity e uid aid s =
     (if db_raises e then (False, s)
      else case find (\<lambda>a. activity_id a = aid \<and> activity_user_id a = uid) (activities s) of
        None \<Rightarrow> (False, s)
      | Some a \<Rightarrow>
          (True, s\<lparr>activities := filter (\<lambda>b. activity_id b \<noteq> activity_id a) (activities s)\<rparr>))"

subsection \<open>Weight entries\<close>

text \<open>
  \<^verbatim>\<open>DatabaseManager.update_weight_entry(entry_id, weight, date)\<close> and
  \<^verbatim>\<open>DatabaseManager.delete_weight_entry(entry_id)\<close> of \<^verbatim>\<open>database.py\<close> take no user
  id and look the row up by \<^verbatim>\<open>WeightEntry.id == entry_id\<close> alone.
\<close>

definition DatabaseManager_update_weight_entry ::
  "db_env \<Rightarrow> int \<Rightarrow> pyval \<Rightarrow> pyval \<Rightarrow> database \<Rightarrow> bool \<times> database" where
  "DatabaseManager_update_weight_entry e eid w d s =
     (if db_raises e then (False, s)
      else case find (\<lambda>x. entry_id x = eid) (weight_entries s) of
        None \<Rightarrow> (False, s)
      | Some entry \<Rightarrow>
          (True, s\<lparr>weight_entries :=
                     map (\<lambda>x. if entry_id x = entry_id entry
                               then entry\<lparr>entry_weight := w, entry_date := d\<rparr> else x)
                       (weight_entries s)\<rparr>))"

definition DatabaseManager_delete_weight_entry ::
  "db_env \<Rightarrow> int \<Rightarrow> database \<Rightarrow> bool \<times> database" where
  "DatabaseManager_delete_weight_entry e eid s =
     (if db_raises e then (False, s)
      else case find (\<lambda>x. entry_id x = eid) (weight_entries s) of
        None \<Rightarrow> (False, s)
      | Some entry \<Rightarrow>
          (True, s\<lparr>weight_entries :=
                     filter (\<lambda>x. entry_id x \<noteq> entry_id entry) (weight_entries s)\<rparr>))"

text \<open>\<^verbatim>\<open>OptimizedDatabaseManager.delete_weight_entry(user_id, entry_id)\<close>\<close>

definition OptimizedDatabaseManager_delete_weight_entry ::
  "db_env \<Rightarrow> int \<Rightarrow> int \<Rightarrow> database \<Rightarrow> bool \<times> database" where
  "OptimizedDatabaseManager_delete_weight_entry e uid eid s =
     (if db_raises e then (False, s)
      else case find (\<lambda>x. entry_id x = eid \<and> entry_user_id x = uid) (weight_entries s) of
        None \<Rightarrow> (False, s)
      | Some entry \<Rightarrow>
          (True, s\<lparr>weight_entries :=
                     filter (\<lambda>x. entry_id x \<noteq> entry_id entry) (weight_entries s)\<rparr>))"

section \<open>Concrete stores and inputs\<close>

text \<open>
  An environment in which the disk works, and a store whose activities file holds an empty
  array.
\<close>

definition no_iso :: "string \<Rightarrow> int option" where
  "no_iso x = None"







text \<open>
  The rows of a frame dated \<open>now - w\<close> days or later: the window of a period in the words
  of the specification.
\<close>

definition dated_within :: "int \<Rightarrow> int \<Rightarrow> dataframe \<Rightarrow> dataframe" where
  "dated_within now w df =
     filter (\<lambda>r. case r ''date'' of
                   Some (PDatetime t) \<Rightarrow> now - w * 86400000000 \<le> t
                 | _ \<Rightarrow> False) df"

text \<open>
  Day 100 on the clock, and three activities of thirty minutes at medium intensity dated
  that day, ten days earlier and forty days earlier.
\<close>

definition day100 :: env where
  "day100 = \<lparr>clock = 8640000000000, uuid4 = ''u2'', disk = DiskOk, fromisoformat = no_iso\<rparr>"

definition act_on :: "string \<Rightarrow> int \<Rightarrow> pydict" where
  "act_on ident t =
     [''id'' \<mapsto> PStr ident, ''type'' \<mapsto> PStr ''Running'', ''duration'' \<mapsto> PInt 30,
      ''intensity'' \<mapsto> PStr ''Medium'', ''date'' \<mapsto> PDatetime t,
      ''description'' \<mapsto> PStr [], ''adaptation'' \<mapsto> PStr ''Aerobic'']"

definition three_activities :: dataframe where
  "three_activities =
     [act_on ''today'' 8640000000000, act_on ''ten'' 7776000000000,
      act_on ''forty'' 5184000000000]"

definition store3 :: store where
  "store3 = \<lparr>activities_file = Some (Json three_activities), activities_mtime = 0,
              activities_tmp = None, activities_cache = None, activities_cache_timestamp = 0\<rparr>"




text \<open>New values for an activity: forty-five minutes of cycling, no description given.\<close>

definition cycling45 :: pydict where
  "cycling45 = [''type'' \<mapsto> PStr ''Cycling'', ''duration'' \<mapsto> PInt 45,
                ''intensity'' \<mapsto> PStr ''High'', ''date'' \<mapsto> PDatetime 7776000000000]"

text \<open>
  A database with the users alice (id 1) and bob (id 2), one activity of each, one weight
  entry of bob, and no friendships; and a database environment in which nothing fails.
\<close>

definition example_digest :: "string \<Rightarrow> string \<Rightarrow> string" where
  "example_digest password salt = take 31 (rev password @ ''...............................'')"

definition dbenv :: db_env where
  "dbenv = \<lparr>db_clock = 8640000000000, db_raises = False, error_text = [],
            first_row = (\<lambda>rows. 0), gensalt = ''$2b$12$abcdefghijklmnopqrstuv'',
            bcrypt_digest = example_digest,
            hashpw_error = ''password cannot be longer than 72 bytes''\<rparr>"

definition alice :: user where
  "alice = \<lparr>user_id = 1, username = ''alice'', email = ''alice@x.com'',
            password_hash = ''$2b$12$aaaa'', created_at = 0, weight_goal = None,
            preferred_language = ''en'', dark_mode = False, remember_token = None\<rparr>"

definition bob :: user where
  "bob = \<lparr>user_id = 2, username = ''bob'', email = ''bob@x.com'',
          password_hash = ''$2b$12$bbbb'', created_at = 0, weight_goal = None,
          preferred_language = ''en'', dark_mode = False, remember_token = None\<rparr>"

definition run_of :: "int \<Rightarrow> int \<Rightarrow> int \<Rightarrow> activity" where
  "run_of ident owner t =
     \<lparr>activity_id = ident, activity_user_id = owner, act_type = PStr ''Running'',
      act_duration = PInt 30, act_intensity = PStr ''Medium'', act_date = PDatetime t,
      act_description = PStr [], act_adaptation = PStr ''Aerobic''\<rparr>"

definition bobs_weight :: weight_entry where
  "bobs_weight = \<lparr>entry_id = 7, entry_user_id = 2, entry_weight = PFloat (143 / 2),
                  entry_date = PDatetime 8640000000000\<rparr>"

definition db1 :: database where
  "db1 = \<lparr>users = [alice, bob],
          activities = [run_of 10 1 8640000000000, run_of 11 2 8640000000000],
          weight_entries = [bobs_weight], friendships = [], next_user_id = 3\<rparr>"


text \<open>
  An activity is no newer than another: it has no timestamp, or both have one and its own
  is the earlier or the same.
\<close>

definition no_newer :: "activity \<Rightarrow> activity \<Rightarrow> bool" where
  "no_newer y x =
     (case act_date_of y of
        None \<Rightarrow> True
      | Some ty \<Rightarrow> (case act_date_of x of None \<Rightarrow> False | Some tx \<Rightarrow> ty \<le> tx))"

text \<open>A database in which alice has 1001 activities, the one of id \<open>i\<close> dated \<open>i\<close>.\<close>

definition many_runs :: "nat \<Rightarrow> activity list" where
  "many_runs n = map (\<lambda>i. run_of (int i) 1 (int i)) [0..<n]"

definition db_many :: database where
  "db_many = \<lparr>users = [alice], activities = many_runs 1001, weight_entries = [],
              friendships = [], next_user_id = 2\<rparr>"

section \<open>Properties\<close>

subsection \<open>Validation in \<^verbatim>\<open>add_activity\<close>\<close>







subsection \<open>Adding an activity and loading it back\<close>



lemma set_sort_values_date_desc [simp]: "set (sort_values_date_desc xs) = set xs"
  by (auto simp: sort_values_date_desc_def)


lemma sort_values_date_desc_single [simp]: "sort_values_date_desc [r] = [r]"
  by (simp add: sort_values_date_desc_def)

lemma sort_values_date_desc_Nil [simp]: "sort_values_date_desc [] = []"
  by (simp add: sort_values_date_desc_def)





lemma concat_row_eq [simp]: "concat_row df r = df @ [r]"
  by (simp add: concat_row_def)






subsection \<open>Activities of a period\<close>

lemma filter_on_or_after: "filter (on_or_after (now - timedelta_days w)) df = dated_within now w df"
proof -
  have "on_or_after (now - timedelta_days w) r
        = (case r ''date'' of Some (PDatetime t) \<Rightarrow> now - w * 86400000000 \<le> t | _ \<Rightarrow> False)" for r
    by (simp add: on_or_after_def date_of_def timedelta_days_def split: option.splits pyval.splits)
  then have "on_or_after (now - timedelta_days w)
        = (\<lambda>r. case r ''date'' of Some (PDatetime t) \<Rightarrow> now - w * 86400000000 \<le> t | _ \<Rightarrow> False)"
    by (rule ext)
  then show ?thesis
    by (simp only: dated_within_def)
qed

lemma period_days_cases:
  "period_days p = (if p = ''Week'' then Some 7 else if p = ''Month'' then Some 30
                    else if p = ''Season'' then Some 90 else None)"
  by (simp add: period_days_def)

lemma has_column_iff: "has_column c df \<longleftrightarrow> (\<exists>r \<in> set df. r c \<noteq> None)"
  by (simp add: has_column_def list_ex_iff)

lemma to_datetime_date_cell:
  "to_datetime e r = Inr r' \<Longrightarrow> r ''date'' \<noteq> None \<Longrightarrow> r' ''date'' \<noteq> None"
  by (auto simp: to_datetime_def split: option.splits pyval.splits)

lemma to_datetime_rows_has_date:
  "to_datetime_rows e xs = Inr ys \<Longrightarrow> has_column ''date'' xs \<Longrightarrow> has_column ''date'' ys"
proof (induction xs arbitrary: ys)
  case Nil
  then show ?case by simp
next
  case (Cons r rs)
  from Cons.prems(1) obtain r' rs' where r': "to_datetime e r = Inr r'"
    and rs': "to_datetime_rows e rs = Inr rs'" and ys: "ys = r' # rs'"
    by (auto split: sum.splits)
  show ?case
  proof (cases "r ''date'' = None")
    case True
    with Cons.prems(2) have "has_column ''date'' rs"
      by (simp add: has_column_iff)
    with Cons.IH [OF rs'] have "has_column ''date'' rs'" .
    then show ?thesis by (simp add: ys has_column_iff)
  next
    case False
    with r' have "r' ''date'' \<noteq> None" by (rule to_datetime_date_cell)
    then show ?thesis by (simp add: ys has_column_iff)
  qed
qed

lemma frame_of_json_has_date:
  assumes "frame_of_json e acts = Inr df"
  shows "has_column ''date'' df"
proof -
  from assms obtain ys where c: "has_column ''date'' acts" and ys: "to_datetime_rows e acts = Inr ys"
    and df: "df = sort_values_date_desc
                 (if has_column ''adaptation'' ys then ys
                  else map (\<lambda>r. r(''adaptation'' \<mapsto> PNone)) ys)"
    by (auto simp: frame_of_json_def split: if_splits sum.splits)
  from ys c have "has_column ''date'' ys" by (rule to_datetime_rows_has_date)
  then have "has_column ''date'' (if has_column ''adaptation'' ys then ys
                  else map (\<lambda>r. r(''adaptation'' \<mapsto> PNone)) ys)"
    by (simp add: has_column_iff)
  then show ?thesis
    by (simp add: df has_column_iff)
qed

lemma fresh_load_has_date:
  "DataManager_load_fresh e f s = (df, s') \<Longrightarrow> df = [] \<or> has_column ''date'' df"
  "OptimizedDataManager_load_fresh e s = (Inr df, s') \<Longrightarrow> df = [] \<or> has_column ''date'' df"
  by (auto simp: DataManager_load_fresh_def OptimizedDataManager_load_fresh_def
       create_empty_activities_df_def frame_of_json_has_date
       split: json_file.splits option.splits sum.splits if_splits)

text \<open>
  C3. For the frame \<^verbatim>\<open>load_activities\<close> returns (a frame with a date column, as every
  frame read from the file is by \<open>fresh_load_has_date\<close>) and the clock reading \<open>now\<close>,
  \<^verbatim>\<open>get_activities_for_period\<close> of both classes returns exactly the rows dated
  \<open>now - w\<close> days or later, with \<open>w\<close> = 7 for Week, 30 for Month and 90 for Season;
  for All time and for every other period it returns the frame unfiltered.
\<close>

theorem get_activities_for_period_window:
  "(DataManager_load_activities e s = (df, sl) \<and> (df = [] \<or> has_column ''date'' df)
    \<longrightarrow> DataManager_get_activities_for_period e period s =
          (if period = ''Week'' then dated_within (clock e) 7 df
           else if period = ''Month'' then dated_within (clock e) 30 df
           else if period = ''Season'' then dated_within (clock e) 90 df
           else df, sl))
   \<and> (OptimizedDataManager_load_activities e s = (Inr df, sl) \<and> (df = [] \<or> has_column ''date'' df)
    \<longrightarrow> OptimizedDataManager_get_activities_for_period e period s =
          (Inr (if period = ''Week'' then dated_within (clock e) 7 df
                else if period = ''Month'' then dated_within (clock e) 30 df
                else if period = ''Season'' then dated_within (clock e) 90 df
                else df), sl))"
proof (intro conjI impI)
  assume a: "DataManager_load_activities e s = (df, sl) \<and> (df = [] \<or> has_column ''date'' df)"
  have nil: "dated_within now w [] = []" for now w
    by (simp add: dated_within_def)
  show "DataManager_get_activities_for_period e period s =
          (if period = ''Week'' then dated_within (clock e) 7 df
           else if period = ''Month'' then dated_within (clock e) 30 df
           else if period = ''Season'' then dated_within (clock e) 90 df
           else df, sl)"
    using a
    by (auto simp: DataManager_get_activities_for_period_def DataManager_start_date_def
          filter_on_or_after nil)
next
  assume a: "OptimizedDataManager_load_activities e s = (Inr df, sl)
             \<and> (df = [] \<or> has_column ''date'' df)"
  have nil: "dated_within now w [] = []" for now w
    by (simp add: dated_within_def)
  show "OptimizedDataManager_get_activities_for_period e period s =
          (Inr (if period = ''Week'' then dated_within (clock e) 7 df
                else if period = ''Month'' then dated_within (clock e) 30 df
                else if period = ''Season'' then dated_within (clock e) 90 df
                else df), sl)"
    using a
    by (auto simp: OptimizedDataManager_get_activities_for_period_def period_days_cases
          filter_on_or_after nil)
qed

lemma frame_three: "frame_of_json e three_activities = Inr three_activities"
  by (simp add: frame_of_json_def three_activities_def has_column_def act_on_def to_datetime_def
      sort_values_date_desc_def date_of_def)

lemma load_store3:
  "DataManager_load_activities day100 store3 = (three_activities, cache_frame day100 three_activities store3)"
  "OptimizedDataManager_load_activities day100 store3 = (Inr three_activities, cache_frame day100 three_activities store3)"
  by (simp_all add: DataManager_load_activities_def DataManager_load_fresh_def
       OptimizedDataManager_load_activities_def OptimizedDataManager_load_fresh_def
       store3_def frame_three) (simp_all add: three_activities_def)

theorem get_activities_for_period_window_witness:
  "fst (DataManager_get_activities_for_period day100 ''Week'' store3)
       = [act_on ''today'' 8640000000000]
   \<and> fst (OptimizedDataManager_get_activities_for_period day100 ''Month'' store3)
       = Inr [act_on ''today'' 8640000000000, act_on ''ten'' 7776000000000]
   \<and> fst (DataManager_get_activities_for_period day100 ''All time'' store3) = three_activities
   \<and> fst (OptimizedDataManager_get_activities_for_period day100 ''Fortnight'' store3)
       = Inr three_activities"
  using get_activities_for_period_window
          [of day100 store3 three_activities "cache_frame day100 three_activities store3" "''Week''"]
        get_activities_for_period_window
          [of day100 store3 three_activities "cache_frame day100 three_activities store3" "''Month''"]
        get_activities_for_period_window
          [of day100 store3 three_activities "cache_frame day100 three_activities store3" "''All time''"]
        get_activities_for_period_window
          [of day100 store3 three_activities "cache_frame day100 three_activities store3" "''Fortnight''"]
  by (simp add: load_store3)
     (simp add: three_activities_def has_column_def dated_within_def act_on_def day100_def)

subsection \<open>Deleting an activity\<close>

lemma cache_frame_fields [simp]:
  "activities_file (cache_frame e df s) = activities_file s"
  "activities_tmp (cache_frame e df s) = activities_tmp s"
  "activities_mtime (cache_frame e df s) = activities_mtime s"
  "activities_cache (cache_frame e df s) = Some df"
  "activities_cache_timestamp (cache_frame e df s) = clock e"
  by (simp_all add: cache_frame_def)


















subsection \<open>Saving the activities\<close>






subsection \<open>Updating an activity\<close>










subsection \<open>Weight entries of another user\<close>

lemma weight_entry_lookup_by_id_alone:
  assumes "\<not> db_raises e" and "x \<in> set (weight_entries s)"
  shows "fst (DatabaseManager_update_weight_entry e (entry_id x) w d s) = True"
    and "fst (DatabaseManager_delete_weight_entry e (entry_id x) s) = True"
proof -
  from assms(2) obtain y where "find (\<lambda>z. entry_id z = entry_id x) (weight_entries s) = Some y"
    by (cases "find (\<lambda>z. entry_id z = entry_id x) (weight_entries s)")
       (auto simp: find_None_iff)
  with assms(1) show "fst (DatabaseManager_update_weight_entry e (entry_id x) w d s) = True"
    and "fst (DatabaseManager_delete_weight_entry e (entry_id x) s) = True"
    by (simp_all add: DatabaseManager_update_weight_entry_def
          DatabaseManager_delete_weight_entry_def)
qed

text \<open>
  C7. The claim does not hold of \<^verbatim>\<open>database.py\<close>: \<^verbatim>\<open>update_weight_entry\<close> and
  \<^verbatim>\<open>delete_weight_entry\<close> have no user id among their parameters and find the row by
  its id alone. In the database \<open>db1\<close> the weight entry 7 belongs to bob (user 2); a
  call made for alice (user 1) with that id answers \<^verbatim>\<open>True\<close> and rewrites, or deletes,
  bob's row. The activity operations of the same class refuse the corresponding calls,
  and so does \<^verbatim>\<open>OptimizedDatabaseManager.delete_weight_entry\<close>.
\<close>

theorem weight_entry_operations_ignore_owner:
  "DatabaseManager_update_weight_entry dbenv 7 (PFloat 70) (PDatetime 8640000000000) db1
     = (True, db1\<lparr>weight_entries :=
                     [bobs_weight\<lparr>entry_weight := PFloat 70,
                                  entry_date := PDatetime 8640000000000\<rparr>]\<rparr>)
   \<and> DatabaseManager_delete_weight_entry dbenv 7 db1 = (True, db1\<lparr>weight_entries := []\<rparr>)
   \<and> entry_user_id bobs_weight = 2
   \<and> DatabaseManager_update_activity dbenv 1 11 cycling45 db1 = (False, db1)
   \<and> DatabaseManager_delete_activity dbenv 1 11 db1 = (False, db1)
   \<and> OptimizedDatabaseManager_delete_weight_entry dbenv 1 7 db1 = (False, db1)"
  by (simp add: DatabaseManager_update_weight_entry_def DatabaseManager_delete_weight_entry_def
      DatabaseManager_update_activity_def DatabaseManager_delete_activity_def
      OptimizedDatabaseManager_delete_weight_entry_def dbenv_def db1_def bobs_weight_def
      run_of_def)

subsection \<open>Adding a friend\<close>









subsection \<open>Creating a user\<close>

lemma query_first_Nil [simp]: "query_first e [] = None"
  by (simp add: query_first_def)

lemma query_first_single [simp]: "query_first e [x] = Some x"
  by (simp add: query_first_def)














subsection \<open>Activities of a user\<close>

lemma no_newer_undated: "act_date_of y = None \<Longrightarrow> no_newer y x"
  by (simp add: no_newer_def)

lemma no_newer_dated:
  "act_date_of x = Some tx \<Longrightarrow> act_date_of y = Some ty \<Longrightarrow> no_newer y x \<longleftrightarrow> ty \<le> tx"
  by (simp add: no_newer_def)

lemma sorted_wrt_order_by_date_desc:
  "sorted_wrt (\<lambda>x y. no_newer y x) (order_by_date_desc xs)"
proof -
  let ?f = "\<lambda>a. - the (act_date_of a)"
  let ?D = "filter (\<lambda>a. act_date_of a \<noteq> None) xs"
  let ?A = "sort_key ?f ?D"
  let ?B = "filter (\<lambda>a. act_date_of a = None) xs"
  have "sorted (map ?f ?A)" by (rule sorted_sort_key)
  then have s: "sorted_wrt (\<lambda>x y. ?f x \<le> ?f y) ?A"
    by (simp only: sorted_map)
  have imp: "no_newer y x" if "x \<in> set ?A" and "y \<in> set ?A" and "?f x \<le> ?f y" for x y
  proof -
    from that(1) obtain tx where tx: "act_date_of x = Some tx" by (simp only: set_sort set_filter) blast
    from that(2) obtain ty where ty: "act_date_of y = Some ty" by (simp only: set_sort set_filter) blast
    from that(3) show ?thesis by (simp add: no_newer_dated [OF tx ty] tx ty)
  qed
  have A: "sorted_wrt (\<lambda>x y. no_newer y x) ?A"
    by (rule sorted_wrt_mono_rel [OF imp s])
  have undated: "act_date_of y = None" if "y \<in> set ?B" for y
    using that by (simp only: set_filter) blast
  have "sorted_wrt (\<lambda>x y. True) ?B" by (induction ?B) simp_all
  then have B: "sorted_wrt (\<lambda>x y. no_newer y x) ?B"
    by (rule sorted_wrt_mono_rel [rotated]) (rule no_newer_undated [OF undated])
  have C: "\<forall>x \<in> set ?A. \<forall>y \<in> set ?B. no_newer y x"
  proof (rule ballI, rule ballI)
    fix x y
    assume "x \<in> set ?A"
    assume y: "y \<in> set ?B"
    have "act_date_of y = None" using y by (rule undated)
    then show "no_newer y x" by (rule no_newer_undated)
  qed
  show ?thesis
    unfolding order_by_date_desc_def sorted_wrt_append by (intro conjI A B C)
qed

lemma sorted_wrt_take_drop:
  assumes "sorted_wrt R xs"
  shows "\<forall>x \<in> set (take n xs). \<forall>y \<in> set (drop n xs). R x y"
proof -
  from assms have "sorted_wrt R (take n xs @ drop n xs)" by simp
  then show ?thesis unfolding sorted_wrt_append by (elim conjE)
qed

lemma length_order_by_date_desc: "length (order_by_date_desc xs) = length xs"
proof -
  have "length (filter (\<lambda>a. act_date_of a \<noteq> None) xs)
        + length (filter (\<lambda>a. \<not> act_date_of a \<noteq> None) xs) = length xs"
    by (rule sum_length_filter_compl)
  then show ?thesis by (simp add: order_by_date_desc_def)
qed

lemma set_order_by_date_desc: "set (order_by_date_desc xs) = set xs"
proof -
  have "set (order_by_date_desc xs)
        = {a \<in> set xs. act_date_of a \<noteq> None} \<union> {a \<in> set xs. act_date_of a = None}"
    by (simp add: order_by_date_desc_def)
  also have "\<dots> = set xs"
  proof (rule set_eqI)
    fix x
    show "x \<in> {a \<in> set xs. act_date_of a \<noteq> None} \<union> {a \<in> set xs. act_date_of a = None}
          \<longleftrightarrow> x \<in> set xs"
      by (cases "act_date_of x") simp_all
  qed
  finally show ?thesis .
qed

text \<open>
  C10. For every user and every period, \<^verbatim>\<open>DatabaseManager.get_user_activities\<close> and
  \<^verbatim>\<open>OptimizedDatabaseManager.get_user_activities\<close> called without a limit return at
  most 1000 activities. When the database answers, both return the first 1000 rows of the
  user's activities of the period in newest-first order, and no row left out is newer
  than a row returned: with more than 1000 stored activities the oldest are omitted.
  For "All time" the query ranges over all the activities of the user.
\<close>

theorem get_user_activities_limit:
  "length (DatabaseManager_get_user_activities e uid period s) \<le> 1000
   \<and> length (OptimizedDatabaseManager_get_user_activities e uid period None s) \<le> 1000
   \<and> (\<not> db_raises e
    \<longrightarrow> DatabaseManager_get_user_activities e uid period s
          = take 1000 (user_activities_query e uid period s)
        \<and> OptimizedDatabaseManager_get_user_activities e uid period None s
          = take 1000 (user_activities_query e uid period s)
        \<and> (\<forall>x \<in> set (take 1000 (user_activities_query e uid period s)).
             \<forall>y \<in> set (drop 1000 (user_activities_query e uid period s)). no_newer y x))
   \<and> set (user_activities_query e uid ''All time'' s)
       = set (filter (\<lambda>a. activity_user_id a = uid) (activities s))
   \<and> length (user_activities_query e uid ''All time'' s)
       = length (filter (\<lambda>a. activity_user_id a = uid) (activities s))"
proof -
  have 1: "length (DatabaseManager_get_user_activities e uid period s) \<le> 1000"
    by (simp add: DatabaseManager_get_user_activities_def)
  have 2: "length (OptimizedDatabaseManager_get_user_activities e uid period None s) \<le> 1000"
    by (simp add: OptimizedDatabaseManager_get_user_activities_def limit_or_1000_def)
  have sorted: "sorted_wrt (\<lambda>x y. no_newer y x) (user_activities_query e uid period s)"
    by (simp only: user_activities_query_def Let_def sorted_wrt_order_by_date_desc)
  have 3: "\<not> db_raises e
    \<longrightarrow> DatabaseManager_get_user_activities e uid period s
          = take 1000 (user_activities_query e uid period s)
        \<and> OptimizedDatabaseManager_get_user_activities e uid period None s
          = take 1000 (user_activities_query e uid period s)
        \<and> (\<forall>x \<in> set (take 1000 (user_activities_query e uid period s)).
             \<forall>y \<in> set (drop 1000 (user_activities_query e uid period s)). no_newer y x)"
  proof (rule impI)
    assume r: "\<not> db_raises e"
    have a: "DatabaseManager_get_user_activities e uid period s
          = take 1000 (user_activities_query e uid period s)"
      using r by (simp add: DatabaseManager_get_user_activities_def)
    have b: "OptimizedDatabaseManager_get_user_activities e uid period None s
          = take 1000 (user_activities_query e uid period s)"
      using r by (simp add: OptimizedDatabaseManager_get_user_activities_def limit_or_1000_def)
    have c: "\<forall>x \<in> set (take 1000 (user_activities_query e uid period s)).
             \<forall>y \<in> set (drop 1000 (user_activities_query e uid period s)). no_newer y x"
      using sorted by (rule sorted_wrt_take_drop)
    from a b c show "DatabaseManager_get_user_activities e uid period s
          = take 1000 (user_activities_query e uid period s)
        \<and> OptimizedDatabaseManager_get_user_activities e uid period None s
          = take 1000 (user_activities_query e uid period s)
        \<and> (\<forall>x \<in> set (take 1000 (user_activities_query e uid period s)).
             \<forall>y \<in> set (drop 1000 (user_activities_query e uid period s)). no_newer y x)"
      by (intro conjI)
  qed
  have q: "user_activities_query e uid ''All time'' s
           = order_by_date_desc (filter (\<lambda>a. activity_user_id a = uid) (activities s))"
    by (simp add: user_activities_query_def cutoff_date_def)
  have 4: "set (user_activities_query e uid ''All time'' s)
       = set (filter (\<lambda>a. activity_user_id a = uid) (activities s))"
    by (simp only: q set_order_by_date_desc)
  have 5: "length (user_activities_query e uid ''All time'' s)
       = length (filter (\<lambda>a. activity_user_id a = uid) (activities s))"
    by (simp only: q length_order_by_date_desc)
  from 1 2 3 4 5 show ?thesis by (intro conjI)
qed

lemma insort_key_end:
  "(\<forall>a \<in> set xs. f a < f x) \<Longrightarrow> insort_key f x xs = xs @ [x]"
  by (induction xs) auto

lemma run_key: "- the (act_date_of (run_of a b t)) = - t"
  and run_dated: "act_date_of (run_of a b t) = Some t"
  and run_owner: "activity_user_id (run_of a b t) = b"
  and run_id: "activity_id (run_of a b t) = a"
  by (simp_all add: act_date_of_def run_of_def)

lemma many_runs_Suc: "many_runs (Suc n) = many_runs n @ [run_of (int n) 1 (int n)]"
  by (simp add: many_runs_def)

lemma foldr_insort_many_runs:
  "(\<forall>a \<in> set acc. - the (act_date_of a) \<le> - int n) \<Longrightarrow>
   foldr (insort_key (\<lambda>a. - the (act_date_of a))) (many_runs n) acc = acc @ rev (many_runs n)"
proof (induction n arbitrary: acc)
  case 0
  then show ?case by (simp add: many_runs_def)
next
  case (Suc n)
  let ?f = "\<lambda>a. - the (act_date_of a)"
  let ?x = "run_of (int n) 1 (int n)"
  have fx: "?f ?x = - int n" by (rule run_key)
  have small: "?f a \<le> - int (Suc n)" if "a \<in> set acc" for a
    using Suc.prems that by blast
  have "\<forall>a \<in> set acc. ?f a < ?f ?x"
  proof
    fix a assume "a \<in> set acc"
    from small [OF this] show "?f a < ?f ?x" by (simp add: fx)
  qed
  then have ins: "insort_key ?f ?x acc = acc @ [?x]"
    by (rule insort_key_end)
  have "\<forall>a \<in> set (acc @ [?x]). ?f a \<le> - int n"
  proof
    fix a assume "a \<in> set (acc @ [?x])"
    then have "a \<in> set acc \<or> a = ?x" by (simp add: disj_commute)
    then show "?f a \<le> - int n"
    proof
      assume "a \<in> set acc"
      from small [OF this] show ?thesis by simp
    next
      assume "a = ?x"
      then show ?thesis by (simp add: fx)
    qed
  qed
  then have "foldr (insort_key ?f) (many_runs n) (acc @ [?x]) = (acc @ [?x]) @ rev (many_runs n)"
    by (rule Suc.IH)
  then show ?case
    by (simp add: many_runs_Suc ins)
qed

lemma order_by_date_desc_many_runs: "order_by_date_desc (many_runs n) = rev (many_runs n)"
proof -
  have d: "filter (\<lambda>a. act_date_of a \<noteq> None) (many_runs n) = many_runs n"
    and u: "filter (\<lambda>a. act_date_of a = None) (many_runs n) = []"
    by (simp_all add: many_runs_def filter_map comp_def run_dated)
  have "sort_key (\<lambda>a. - the (act_date_of a)) (many_runs n) = rev (many_runs n)"
    using foldr_insort_many_runs [of "[]" n] by (simp add: sort_key_def)
  then show ?thesis
    by (simp only: order_by_date_desc_def d u append_Nil2)
qed

lemma query_db_many:
  "user_activities_query dbenv 1 ''All time'' db_many = rev (many_runs 1001)"
proof -
  have "filter (\<lambda>a. activity_user_id a = 1) (many_runs 1001) = many_runs 1001"
    by (simp add: many_runs_def filter_map comp_def run_owner)
  then show ?thesis
    by (simp add: user_activities_query_def cutoff_date_def db_many_def
          order_by_date_desc_many_runs)
qed

lemma length_many_runs: "length (many_runs n) = n"
  by (simp add: many_runs_def)

lemma take_query_db_many:
  "take 1000 (rev (many_runs 1001)) = rev (map (\<lambda>i. run_of (int i) 1 (int i)) [1..<1001])"
  and drop_query_db_many: "drop 1000 (rev (many_runs 1001)) = [run_of 0 1 0]"
proof -
  have split: "[0..<1001] = [0] @ [1..<1001]"
    by (simp add: upt_rec [of 0])
  have m: "many_runs 1001 = [run_of 0 1 0] @ map (\<lambda>i. run_of (int i) 1 (int i)) [1..<1001]"
    unfolding many_runs_def by (subst split) simp
  have len: "length (map (\<lambda>i. run_of (int i) 1 (int i)) [1..<1001]) = 1000"
    by simp
  show "take 1000 (rev (many_runs 1001)) = rev (map (\<lambda>i. run_of (int i) 1 (int i)) [1..<1001])"
    unfolding m rev_append using len by simp
  show "drop 1000 (rev (many_runs 1001)) = [run_of 0 1 0]"
    unfolding m rev_append using len by simp
qed

lemma oldest_not_taken:
  "run_of 0 1 0 \<notin> set (rev (map (\<lambda>i. run_of (int i) 1 (int i)) [1..<1001]))"
proof
  assume "run_of 0 1 0 \<in> set (rev (map (\<lambda>i. run_of (int i) 1 (int i)) [1..<1001]))"
  then have "run_of 0 1 0 \<in> (\<lambda>i. run_of (int i) 1 (int i)) ` {1..<1001}"
    by (simp only: set_rev set_map set_upt)
  then obtain i where i0: "i \<in> {1..<1001}" and eq: "run_of 0 1 0 = run_of (int i) 1 (int i)"
    by (rule imageE)
  from i0 have i: "1 \<le> i" by simp
  from eq have "activity_id (run_of 0 1 0) = activity_id (run_of (int i) 1 (int i))"
    by (rule arg_cong)
  then have "int i = 0" by (simp only: run_id)
  with i show False by simp
qed

theorem get_user_activities_limit_witness:
  "length (DatabaseManager_get_user_activities dbenv 1 ''All time'' db_many) = 1000
   \<and> length (OptimizedDatabaseManager_get_user_activities dbenv 1 ''All time'' None db_many) = 1000
   \<and> length (filter (\<lambda>a. activity_user_id a = 1) (activities db_many)) = 1001
   \<and> run_of 0 1 0 \<in> set (activities db_many)
   \<and> run_of 0 1 0 \<notin> set (DatabaseManager_get_user_activities dbenv 1 ''All time'' db_many)
   \<and> no_newer (run_of 0 1 0) (run_of 1000 1 1000)"
proof -
  note t = get_user_activities_limit [of dbenv 1 "''All time''" db_many]
  have r: "\<not> db_raises dbenv" by (simp add: dbenv_def)
  note q = query_db_many
  note t2 = t [THEN conjunct2, THEN conjunct2]
  note t3 = t2 [THEN conjunct1, rule_format, OF r]
  have a: "DatabaseManager_get_user_activities dbenv 1 ''All time'' db_many
                     = take 1000 (rev (many_runs 1001))"
    using t3 [THEN conjunct1] by (simp only: q)
  have b: "OptimizedDatabaseManager_get_user_activities dbenv 1 ''All time'' None db_many
                     = take 1000 (rev (many_runs 1001))"
    using t3 [THEN conjunct2, THEN conjunct1] by (simp only: q)
  have c: "\<forall>x \<in> set (take 1000 (rev (many_runs 1001))).
             \<forall>y \<in> set (drop 1000 (rev (many_runs 1001))). no_newer y x"
    using t3 [THEN conjunct2, THEN conjunct2] by (simp only: q)
  have d: "length (rev (many_runs 1001))
             = length (filter (\<lambda>a. activity_user_id a = 1) (activities db_many))"
    using t2 [THEN conjunct2, THEN conjunct2] by (simp only: q)
  have 1: "length (DatabaseManager_get_user_activities dbenv 1 ''All time'' db_many) = 1000"
    and 2: "length (OptimizedDatabaseManager_get_user_activities dbenv 1 ''All time'' None db_many)
             = 1000"
    by (simp_all add: a b length_many_runs)
  from d have 3: "length (filter (\<lambda>a. activity_user_id a = 1) (activities db_many)) = 1001"
    by (simp add: length_many_runs)
  have "run_of 0 1 0 \<in> set (many_runs 1001)"
    unfolding many_runs_def by (simp only: set_map set_upt) (rule image_eqI [of _ _ 0], simp_all)
  then have 4: "run_of 0 1 0 \<in> set (activities db_many)"
    by (simp add: db_many_def)
  have 5: "run_of 0 1 0 \<notin> set (DatabaseManager_get_user_activities dbenv 1 ''All time'' db_many)"
    by (simp only: a take_query_db_many oldest_not_taken not_False_eq_True)
  have newest: "run_of 1000 1 1000 \<in> set (take 1000 (rev (many_runs 1001)))"
    by (simp only: take_query_db_many set_rev set_map set_upt)
       (rule image_eqI [of _ _ 1000], simp_all)
  have oldest: "run_of 0 1 0 \<in> set (drop 1000 (rev (many_runs 1001)))"
    by (simp only: drop_query_db_many) simp
  from c newest oldest have 6: "no_newer (run_of 0 1 0) (run_of 1000 1 1000)"
    by blast
  from 1 2 3 4 5 6 show ?thesis by (intro conjI)
qed

end
